theory Spec2Isabelle
  imports Complex_Main
begin

section \<open>Data model\<close>

text \<open>
  The types of \<^verbatim>\<open>DBTypes\<close> and of the user schema. An object id is compared as a
  string; that every id met here is a well-formed object id is taken for granted, so the
  store's cast failure on an ill-formed id is not part of the model.
\<close>

type_synonym oid = string

text \<open>A JSON value: what a handler writes with \<^verbatim>\<open>res.json\<close>, and what a client may
  write into a request body.\<close>

datatype json =
    JNull
  | JStr string
  | JNum rat
  | JArr "json list"
  | JObj "(string \<times> json) list"

text \<open>A stored user: the four required string paths of \<^verbatim>\<open>userSchema\<close> and \<^verbatim>\<open>_id\<close>.\<close>

record user =
  user_id :: oid
  user_name :: string
  email :: string
  password :: string
  role :: string

text \<open>
  A request body typed \<^verbatim>\<open>User\<close>. The type is erased at run time, so each field may be
  missing from what the client sent, and the client may add keys of its own. One such key
  matters: \<^verbatim>\<open>express-validator#contexts\<close>, under which the validation library looks for
  its contexts in whatever object it is handed. \<open>ub_contexts\<close> is what stands there, as the
  library reads it: a list of contexts, each given by the entries of its \<^verbatim>\<open>errors\<close>; an
  entry is any JSON value or \<^verbatim>\<open>undefined\<close> (\<open>None\<close>). A body without the key has no
  contexts.
\<close>

record user_body =
  ub_id :: "oid option"
  ub_user_name :: "string option"
  ub_email :: "string option"
  ub_password :: "string option"
  ub_role :: "string option"
  ub_contexts :: "json option list list"

text \<open>The principal that the authentication layer leaves in \<^verbatim>\<open>res.locals.user\<close>.\<close>

record principal =
  p_id :: oid
  p_user_name :: string
  p_email :: string
  p_role :: string

text \<open>A GeoJSON point as stored in \<^verbatim>\<open>location\<close>: its type tag and the position
  \<^verbatim>\<open>[longitude, latitude]\<close>, which is the order the store's geometry queries read.\<close>

record point =
  pt_type :: string
  coordinates :: "rat \<times> rat"

text \<open>A stored cat: every field that \<^verbatim>\<open>Cat\<close> declares mandatory, and \<^verbatim>\<open>_id\<close>.\<close>

record cat =
  cat_id :: oid
  cat_name :: string
  weight :: rat
  owner :: oid
  filename :: string
  birthdate :: string
  location :: point

text \<open>A request body typed \<^verbatim>\<open>Cat\<close>, each field possibly missing.\<close>

record cat_body =
  cb_id :: "oid option"
  cb_cat_name :: "string option"
  cb_weight :: "rat option"
  cb_owner :: "oid option"
  cb_filename :: "string option"
  cb_birthdate :: "string option"
  cb_location :: "point option"

text \<open>The two collections. Order is the store's natural order, new documents last.\<close>

record db =
  users :: "user list"
  cats :: "cat list"

text \<open>
  Failures raised by the run time and the libraries. Their message texts belong to the
  libraries, so a message is either a text written in this repository or the text of one
  of these failures.
\<close>

datatype library_failure =
    PropertyOfUndefined string
  | BcryptIllegalArguments
  | SchemaValidation
  | DuplicateKey
  | ImmutableId
  | InvalidGeometry

datatype message = Text string | LibraryText library_failure

text \<open>A thrown value: a \<^verbatim>\<open>CustomError(message, status)\<close> or a library's own error.\<close>

datatype error = CustomError message nat | LibraryError library_failure

fun error_message :: "error \<Rightarrow> message" where
  "error_message (CustomError m st) = m"
| "error_message (LibraryError f) = LibraryText f"

text \<open>
  The outcome of one handler call: a JSON body, an error handed to \<^verbatim>\<open>next\<close>, or neither
  (the handler returns and the request is never answered).
\<close>

datatype response = Json json | Next error | NoResponse

text \<open>An uploaded file as the upload layer leaves it in \<^verbatim>\<open>req.file\<close>.\<close>

record uploaded_file =
  file_filename :: string

text \<open>
  The request and response context a handler reads: the validation layer's aggregated
  errors as pairs of \<^verbatim>\<open>msg\<close> and \<^verbatim>\<open>param\<close>, the route parameter \<^verbatim>\<open>id\<close>, the body, the
  uploaded file, the two query strings, and the locals set by earlier layers.
\<close>

record 'b request =
  rq_errors :: "(string \<times> string) list"
  params_id :: oid
  rq_body :: 'b
  rq_file :: "uploaded_file option"
  query_topRight :: "string option"
  query_bottomLeft :: "string option"
  locals_user :: "principal option"
  locals_coords :: "point option"

text \<open>
  What the libraries contribute to one request: the object id minted for a new document,
  the salt that \<^verbatim>\<open>bcrypt.genSalt\<close> draws, and the function \<^verbatim>\<open>bcrypt.hash\<close>.
\<close>

record env =
  new_id :: oid
  genSalt :: "nat \<Rightarrow> string"
  bcrypt_hash :: "string \<Rightarrow> string \<Rightarrow> string"

section \<open>Shared pieces of the handlers\<close>

fun join :: "string \<Rightarrow> string list \<Rightarrow> string" where
  "join sep [] = []"
| "join sep [x] = x"
| "join sep (x # y # ys) = x @ sep @ join sep (y # ys)"

text \<open>\<^verbatim>\<open>errors.array().map((error) => `${error.msg}: ${error.param}`).join(', ')\<close>\<close>

definition messages :: "(string \<times> string) list \<Rightarrow> string" where
  "messages errs = join '', '' (map (\<lambda>(msg, param). msg @ '': '' @ param) errs)"

text \<open>The \<^verbatim>\<open>MessageResponse\<close> envelope.\<close>

definition MessageResponse :: "string \<Rightarrow> json \<Rightarrow> json" where
  "MessageResponse m d = JObj [(''message'', JStr m), (''data'', d)]"

text \<open>
  The handlers' \<^verbatim>\<open>catch\<close> clause: whatever was thrown inside \<^verbatim>\<open>try\<close> is handed to
  \<^verbatim>\<open>next\<close> as a new \<^verbatim>\<open>CustomError\<close> that keeps the message and has status 500.
\<close>

definition catch500 :: "(error + response) \<times> db \<Rightarrow> response \<times> db" where
  "catch500 r =
     (case fst r of
        Inl e \<Rightarrow> (Next (CustomError (error_message e) 500), snd r)
      | Inr out \<Rightarrow> (out, snd r))"

section \<open>The user collection\<close>

text \<open>A user document as it is rendered: \<^verbatim>\<open>_id\<close> and the paths of the schema. The
  store's version key \<^verbatim>\<open>__v\<close> is not rendered.\<close>

definition user_doc :: "user \<Rightarrow> (string \<times> json) list" where
  "user_doc u =
     [(''_id'', JStr (user_id u)), (''user_name'', JStr (user_name u)),
      (''email'', JStr (email u)), (''password'', JStr (password u)),
      (''role'', JStr (role u))]"

text \<open>\<^verbatim>\<open>select('-a -b')\<close>: the document without the named paths.\<close>

definition select_minus :: "string list \<Rightarrow> (string \<times> json) list \<Rightarrow> (string \<times> json) list" where
  "select_minus paths d = filter (\<lambda>kv. fst kv \<notin> set paths) d"

text \<open>\<^verbatim>\<open>select('a b')\<close> on a populated path: \<^verbatim>\<open>_id\<close> and the named paths.\<close>

definition select_only :: "string list \<Rightarrow> (string \<times> json) list \<Rightarrow> (string \<times> json) list" where
  "select_only paths d = filter (\<lambda>kv. fst kv \<in> set (''_id'' # paths)) d"

definition user_findById :: "oid \<Rightarrow> user list \<Rightarrow> user option" where
  "user_findById i us = find (\<lambda>u. user_id u = i) us"


text \<open>The \<^verbatim>\<open>required\<close> check of a string path: present and not empty.\<close>

definition required_string :: "string option \<Rightarrow> bool" where
  "required_string v = (case v of None \<Rightarrow> False | Some s \<Rightarrow> s \<noteq> [])"

text \<open>
  \<^verbatim>\<open>userModel.create\<close>: the document takes the given \<^verbatim>\<open>_id\<close> or a new one, the schema's
  required paths are checked, then the insert fails on an \<^verbatim>\<open>_id\<close> already in use.
\<close>

definition user_create :: "env \<Rightarrow> user_body \<Rightarrow> user list \<Rightarrow> error + user" where
  "user_create e b us =
     (if \<not> (required_string (ub_user_name b) \<and> required_string (ub_email b)
             \<and> required_string (ub_password b) \<and> required_string (ub_role b))
      then Inl (LibraryError SchemaValidation)
      else
        let i = (case ub_id b of None \<Rightarrow> new_id e | Some j \<Rightarrow> j) in
        if user_findById i us \<noteq> None then Inl (LibraryError DuplicateKey)
        else Inr \<lparr>user_id = i, user_name = the (ub_user_name b), email = the (ub_email b),
                  password = the (ub_password b), role = the (ub_role b)\<rparr>)"

text \<open>An update sets the paths the body gives and leaves the others.\<close>

definition user_apply :: "user_body \<Rightarrow> user \<Rightarrow> user" where
  "user_apply b u =
     u\<lparr>user_name := (case ub_user_name b of None \<Rightarrow> user_name u | Some v \<Rightarrow> v),
       email := (case ub_email b of None \<Rightarrow> email u | Some v \<Rightarrow> v),
       password := (case ub_password b of None \<Rightarrow> password u | Some v \<Rightarrow> v),
       role := (case ub_role b of None \<Rightarrow> role u | Some v \<Rightarrow> v)\<rparr>"

fun user_replace :: "oid \<Rightarrow> user \<Rightarrow> user list \<Rightarrow> user list" where
  "user_replace i v [] = []"
| "user_replace i v (u # us) = (if user_id u = i then v # us else u # user_replace i v us)"

text \<open>
  \<^verbatim>\<open>findByIdAndUpdate(id, body, {new: true})\<close>: nothing found gives \<^verbatim>\<open>null\<close>; a body
  that would change \<^verbatim>\<open>_id\<close> is refused by the store; otherwise the updated document.
\<close>

definition user_findByIdAndUpdate ::
  "oid \<Rightarrow> user_body \<Rightarrow> user list \<Rightarrow> error + (user option \<times> user list)" where
  "user_findByIdAndUpdate i b us =
     (case user_findById i us of
        None \<Rightarrow> Inr (None, us)
      | Some u \<Rightarrow>
          (case ub_id b of
             None \<Rightarrow> Inr (Some (user_apply b u), user_replace i (user_apply b u) us)
           | Some j \<Rightarrow>
               if j \<noteq> i then Inl (LibraryError ImmutableId)
               else Inr (Some (user_apply b u), user_replace i (user_apply b u) us)))"

section \<open>The user handlers\<close>

definition checkToken :: "'b request \<Rightarrow> db \<Rightarrow> response \<times> db" where
  "checkToken rq d =
     (case locals_user rq of
        None \<Rightarrow> (Next (CustomError (Text ''token not valid'') 403), d)
      | Some u \<Rightarrow>
          (Json (JObj [(''_id'', JStr (p_id u)), (''user_name'', JStr (p_user_name u)),
                       (''email'', JStr (p_email u))]), d))"

text \<open>
  In \<^verbatim>\<open>userGet\<close> and \<^verbatim>\<open>userPost\<close> the error for a failed validation is constructed and
  dropped: there is no \<^verbatim>\<open>throw\<close>, and the handler goes on.
\<close>

definition userGet :: "'b request \<Rightarrow> db \<Rightarrow> response \<times> db" where
  "userGet rq d = catch500
     (let dropped = (if rq_errors rq \<noteq> []
                     then Some (CustomError (Text (messages (rq_errors rq))) 400) else None)
      in case user_findById (params_id rq) (users d) of
           None \<Rightarrow> (Inr (Next (CustomError (Text ''No user found'') 404)), d)
         | Some u \<Rightarrow> (Inr (Json (JObj (select_minus [''role''] (user_doc u)))), d))"

text \<open>\<^verbatim>\<open>find()\<close> gives an array, which is never falsy: the 404 branch cannot be taken.\<close>

definition userListGet :: "'b request \<Rightarrow> db \<Rightarrow> response \<times> db" where
  "userListGet rq d = catch500
     (Inr (Json (JArr (map (\<lambda>u. JObj (select_minus [''role''] (user_doc u))) (users d)))), d)"

definition userPost :: "env \<Rightarrow> user_body request \<Rightarrow> db \<Rightarrow> response \<times> db" where
  "userPost e rq d = catch500
     (let dropped = (if rq_errors rq \<noteq> []
                     then Some (CustomError (Text (messages (rq_errors rq))) 400) else None);
          user = rq_body rq;
          salt = genSalt e 10
      in case ub_password user of
           None \<Rightarrow> (Inl (LibraryError BcryptIllegalArguments), d)
         | Some plain \<Rightarrow>
             let hashPassword = bcrypt_hash e plain salt in
             (case user_create e (user\<lparr>ub_password := Some hashPassword, ub_role := Some ''user''\<rparr>)
                     (users d) of
                Inl err \<Rightarrow> (Inl err, d)
              | Inr result \<Rightarrow>
                  (Inr (Json (MessageResponse ''Category created''
                          (JObj [(''user_name'', JStr (user_name result)),
                                 (''email'', JStr (email result))]))),
                   d\<lparr>users := users d @ [result]\<rparr>)))"

definition userPutCurrent :: "user_body request \<Rightarrow> db \<Rightarrow> response \<times> db" where
  "userPutCurrent rq d = catch500
     (if rq_errors rq \<noteq> [] then (Inl (CustomError (Text (messages (rq_errors rq))) 400), d)
      else
        case locals_user rq of
          None \<Rightarrow> (Inl (LibraryError (PropertyOfUndefined ''_id'')), d)
        | Some p \<Rightarrow>
            (case user_findByIdAndUpdate (p_id p) (rq_body rq) (users d) of
               Inl err \<Rightarrow> (Inl err, d)
             | Inr (None, us) \<Rightarrow> (Inl (CustomError (Text ''No user found'') 404), d)
             | Inr (Some result, us) \<Rightarrow>
                 (Inr (Json (MessageResponse ''User updated''
                         (JObj (select_minus [''password'', ''role''] (user_doc result))))),
                  d\<lparr>users := us\<rparr>)))"



section \<open>The cat collection\<close>

definition point_json :: "point \<Rightarrow> json" where
  "point_json p =
     JObj [(''type'', JStr (pt_type p)),
           (''coordinates'', JArr [JNum (fst (coordinates p)), JNum (snd (coordinates p))])]"

text \<open>A cat document, with what stands at the path \<^verbatim>\<open>owner\<close> given separately.\<close>

definition cat_doc :: "json \<Rightarrow> cat \<Rightarrow> json" where
  "cat_doc own c =
     JObj [(''_id'', JStr (cat_id c)), (''cat_name'', JStr (cat_name c)),
           (''weight'', JNum (weight c)), (''owner'', own),
           (''filename'', JStr (filename c)), (''birthdate'', JStr (birthdate c)),
           (''location'', point_json (location c))]"

text \<open>
  \<^verbatim>\<open>populate('owner')\<close> and \<^verbatim>\<open>populate('owner', 'user_name email')\<close>: the owner's id is
  replaced by the owner's document, whole or reduced to the selected paths, and by
  \<^verbatim>\<open>null\<close> when no such user is stored.
\<close>

definition populate :: "string list option \<Rightarrow> user list \<Rightarrow> cat \<Rightarrow> json" where
  "populate sel us c =
     cat_doc
       (case user_findById (owner c) us of
          None \<Rightarrow> JNull
        | Some u \<Rightarrow>
            JObj (case sel of None \<Rightarrow> user_doc u | Some paths \<Rightarrow> select_only paths (user_doc u)))
       c"

definition cat_findById :: "oid \<Rightarrow> cat list \<Rightarrow> cat option" where
  "cat_findById i cs = find (\<lambda>c. cat_id c = i) cs"

fun cat_remove :: "oid \<Rightarrow> cat list \<Rightarrow> cat list" where
  "cat_remove i [] = []"
| "cat_remove i (c # cs) = (if cat_id c = i then cs else c # cat_remove i cs)"

fun cat_replace :: "oid \<Rightarrow> cat \<Rightarrow> cat list \<Rightarrow> cat list" where
  "cat_replace i v [] = []"
| "cat_replace i v (c # cs) = (if cat_id c = i then v # cs else c # cat_replace i v cs)"

definition cat_apply :: "cat_body \<Rightarrow> cat \<Rightarrow> cat" where
  "cat_apply b c =
     c\<lparr>cat_name := (case cb_cat_name b of None \<Rightarrow> cat_name c | Some v \<Rightarrow> v),
       weight := (case cb_weight b of None \<Rightarrow> weight c | Some v \<Rightarrow> v),
       owner := (case cb_owner b of None \<Rightarrow> owner c | Some v \<Rightarrow> v),
       filename := (case cb_filename b of None \<Rightarrow> filename c | Some v \<Rightarrow> v),
       birthdate := (case cb_birthdate b of None \<Rightarrow> birthdate c | Some v \<Rightarrow> v),
       location := (case cb_location b of None \<Rightarrow> location c | Some v \<Rightarrow> v)\<rparr>"

definition cat_findByIdAndUpdate ::
  "oid \<Rightarrow> cat_body \<Rightarrow> cat list \<Rightarrow> error + (cat option \<times> cat list)" where
  "cat_findByIdAndUpdate i b cs =
     (case cat_findById i cs of
        None \<Rightarrow> Inr (None, cs)
      | Some c \<Rightarrow>
          (case cb_id b of
             None \<Rightarrow> Inr (Some (cat_apply b c), cat_replace i (cat_apply b c) cs)
           | Some j \<Rightarrow>
               if j \<noteq> i then Inl (LibraryError ImmutableId)
               else Inr (Some (cat_apply b c), cat_replace i (cat_apply b c) cs)))"

definition cat_findByIdAndDelete :: "oid \<Rightarrow> cat list \<Rightarrow> cat option \<times> cat list" where
  "cat_findByIdAndDelete i cs =
     (case cat_findById i cs of None \<Rightarrow> (None, cs) | Some c \<Rightarrow> (Some c, cat_remove i cs))"

text \<open>
  Modelled from the spec: the schema of \<^verbatim>\<open>catModel\<close> is not among the sources. The data
  model gives a cat a name, a weight, a birthdate, an image filename, a point and an owner,
  and the type \<^verbatim>\<open>Cat\<close> makes each of them mandatory; so \<^verbatim>\<open>create\<close> refuses a document that
  lacks one, takes the given \<^verbatim>\<open>_id\<close> or a new one, and fails on an \<^verbatim>\<open>_id\<close> in use.
\<close>

definition cat_create :: "env \<Rightarrow> cat_body \<Rightarrow> cat list \<Rightarrow> error + cat" where
  "cat_create e b cs =
     (if cb_cat_name b = None \<or> cb_weight b = None \<or> cb_owner b = None
         \<or> cb_filename b = None \<or> cb_birthdate b = None \<or> cb_location b = None
      then Inl (LibraryError SchemaValidation)
      else
        let i = (case cb_id b of None \<Rightarrow> new_id e | Some j \<Rightarrow> j) in
        if cat_findById i cs \<noteq> None then Inl (LibraryError DuplicateKey)
        else Inr \<lparr>cat_id = i, cat_name = the (cb_cat_name b), weight = the (cb_weight b),
                  owner = the (cb_owner b), filename = the (cb_filename b),
                  birthdate = the (cb_birthdate b), location = the (cb_location b)\<rparr>)"

section \<open>The cat handlers that change the store\<close>

definition catPutAdmin :: "cat_body request \<Rightarrow> db \<Rightarrow> response \<times> db" where
  "catPutAdmin rq d = catch500
     (if rq_errors rq \<noteq> [] then (Inl (CustomError (Text (messages (rq_errors rq))) 400), d)
      else
        case locals_user rq of
          None \<Rightarrow> (Inl (LibraryError (PropertyOfUndefined ''role'')), d)
        | Some p \<Rightarrow>
            if p_role p = ''admin'' then
              (case cat_findByIdAndUpdate (params_id rq) (rq_body rq) (cats d) of
                 Inl err \<Rightarrow> (Inl err, d)
               | Inr (None, cs) \<Rightarrow> (Inr (Next (CustomError (Text ''No cat found'') 404)), d)
               | Inr (Some c, cs) \<Rightarrow>
                   (Inr (Json (MessageResponse ''Cat updated''
                           (populate (Some [''user_name'', ''email'']) (users d) c))),
                    d\<lparr>cats := cs\<rparr>))
            else (Inr NoResponse, d))"

definition catDeleteAdmin :: "cat_body request \<Rightarrow> db \<Rightarrow> response \<times> db" where
  "catDeleteAdmin rq d = catch500
     (if rq_errors rq \<noteq> [] then (Inl (CustomError (Text (messages (rq_errors rq))) 400), d)
      else
        case locals_user rq of
          None \<Rightarrow> (Inl (LibraryError (PropertyOfUndefined ''role'')), d)
        | Some p \<Rightarrow>
            if p_role p = ''admin'' then
              (case cat_findByIdAndDelete (params_id rq) (cats d) of
                 (None, cs) \<Rightarrow> (Inr (Next (CustomError (Text ''No cat found'') 404)), d)
               | (Some c, cs) \<Rightarrow>
                   (Inr (Json (MessageResponse ''Cat deleted'' (populate None (users d) c))),
                    d\<lparr>cats := cs\<rparr>))
            else (Inr NoResponse, d))"

text \<open>\<^verbatim>\<open>catDelete\<close> and \<^verbatim>\<open>catPut\<close> never read \<^verbatim>\<open>res.locals.user\<close>.\<close>

definition catDelete :: "'b request \<Rightarrow> db \<Rightarrow> response \<times> db" where
  "catDelete rq d = catch500
     (if rq_errors rq \<noteq> [] then (Inl (CustomError (Text (messages (rq_errors rq))) 400), d)
      else
        case cat_findByIdAndDelete (params_id rq) (cats d) of
          (None, cs) \<Rightarrow> (Inr (Next (CustomError (Text ''No cat found'') 404)), d)
        | (Some c, cs) \<Rightarrow>
            (Inr (Json (MessageResponse ''Cat deleted'' (populate None (users d) c))),
             d\<lparr>cats := cs\<rparr>))"

definition catPut :: "cat_body request \<Rightarrow> db \<Rightarrow> response \<times> db" where
  "catPut rq d = catch500
     (if rq_errors rq \<noteq> [] then (Inl (CustomError (Text (messages (rq_errors rq))) 400), d)
      else
        case cat_findByIdAndUpdate (params_id rq) (rq_body rq) (cats d) of
          Inl err \<Rightarrow> (Inl err, d)
        | Inr (None, cs) \<Rightarrow> (Inr (Next (CustomError (Text ''No species found'') 404)), d)
        | Inr (Some c, cs) \<Rightarrow>
            (Inr (Json (MessageResponse ''Cat updated''
                    (populate (Some [''user_name'', ''email'']) (users d) c))),
             d\<lparr>cats := cs\<rparr>))"

text \<open>
  \<^verbatim>\<open>catPost\<close> overwrites three fields of the body before it is stored. The created
  document is populated after the insert, against the users then stored.
\<close>

definition catPost :: "env \<Rightarrow> cat_body request \<Rightarrow> db \<Rightarrow> response \<times> db" where
  "catPost e rq d = catch500
     (if rq_errors rq \<noteq> [] then (Inl (CustomError (Text (messages (rq_errors rq))) 400), d)
      else
        case rq_file rq of
          None \<Rightarrow> (Inl (CustomError (Text ''file not found'') 400), d)
        | Some f \<Rightarrow>
            (case locals_user rq of
               None \<Rightarrow> (Inl (LibraryError (PropertyOfUndefined ''_id'')), d)
             | Some p \<Rightarrow>
                 (case cat_create e
                         ((rq_body rq)\<lparr>cb_location := locals_coords rq,
                                       cb_owner := Some (p_id p),
                                       cb_filename := Some (file_filename f)\<rparr>)
                         (cats d) of
                    Inl err \<Rightarrow> (Inl err, d)
                  | Inr c \<Rightarrow>
                      (Inr (Json (MessageResponse ''Cat created'' (populate None (users d) c))),
                       d\<lparr>cats := cats d @ [c]\<rparr>))))"

section \<open>The bounding-box query\<close>

text \<open>
  A JavaScript number is modelled as a rational when it is finite and as \<open>None\<close> when it
  is \<^verbatim>\<open>NaN\<close> or infinite. The rounding of finite doubles is not modelled.
\<close>

type_synonym number = "rat option"

definition is_digit :: "char \<Rightarrow> bool" where
  "is_digit c = (c \<in> set ''0123456789'')"

definition is_space :: "char \<Rightarrow> bool" where
  "is_space c = (c \<in> set [CHR '' '', CHR 0x09, CHR 0x0A, CHR 0x0B, CHR 0x0C, CHR 0x0D])"

definition digits_value :: "string \<Rightarrow> nat" where
  "digits_value ds = foldl (\<lambda>a c. 10 * a + (of_char c - 48)) 0 ds"

text \<open>An optional sign at the head of a string, and the rest.\<close>

definition take_sign :: "string \<Rightarrow> int \<times> string" where
  "take_sign s =
     (case s of
        [] \<Rightarrow> (1, s)
      | c # r \<Rightarrow> if c = CHR ''-'' then (- 1, r) else if c = CHR ''+'' then (1, r) else (1, s))"

text \<open>The exponent part at the head of a string: \<^verbatim>\<open>e\<close> or \<^verbatim>\<open>E\<close>, an optional sign and at
  least one digit; anything else is no exponent.\<close>

definition exponent :: "string \<Rightarrow> int" where
  "exponent s =
     (case s of
        [] \<Rightarrow> 0
      | c # r \<Rightarrow>
          if c = CHR ''e'' \<or> c = CHR ''E'' then
            (let sr = take_sign r; ds = takeWhile is_digit (snd sr)
             in if ds = [] then 0 else fst sr * int (digits_value ds))
          else 0)"

text \<open>
  A value whose magnitude reaches \<open>2 ^ 1024 - 2 ^ 970\<close> is rounded to an infinity by the
  conversion to a double; below that bound it is finite.
\<close>

definition finite_number :: "rat \<Rightarrow> number" where
  "finite_number v = (if \<bar>v\<bar> < 2 ^ 1024 - 2 ^ 970 then Some v else None)"

text \<open>
  \<^verbatim>\<open>parseFloat\<close>: leading white space is skipped, the longest prefix that is a decimal
  literal is read, and the rest is ignored. A string without such a prefix gives \<^verbatim>\<open>NaN\<close>;
  so does \<^verbatim>\<open>undefined\<close>, which is first turned into the string \<^verbatim>\<open>undefined\<close>. The
  literal \<^verbatim>\<open>Infinity\<close> is not finite and gives \<open>None\<close> as well, and so does a literal
  beyond the range of doubles. Two things are left out: a finite value is kept exact, not
  rounded to the nearest double, and of the white space only the ASCII characters are
  skipped, not the ones beyond ASCII that JavaScript also counts.
\<close>

definition parseFloat :: "string option \<Rightarrow> number" where
  "parseFloat arg =
     (let s = dropWhile is_space (case arg of None \<Rightarrow> ''undefined'' | Some t \<Rightarrow> t);
          sr = take_sign s;
          ip = takeWhile is_digit (snd sr);
          r = dropWhile is_digit (snd sr);
          fp = (case r of [] \<Rightarrow> [] | c # t \<Rightarrow> if c = CHR ''.'' then takeWhile is_digit t else []);
          r' = (case r of [] \<Rightarrow> [] | c # t \<Rightarrow> if c = CHR ''.'' then dropWhile is_digit t else r);
          ex = exponent r';
          m = of_int (fst sr) * (of_nat (digits_value ip) + of_nat (digits_value fp) / 10 ^ length fp)
      in if ip = [] \<and> fp = [] then None
         else finite_number (if 0 \<le> ex then m * 10 ^ nat ex else m / 10 ^ nat (- ex)))"

text \<open>\<^verbatim>\<open>s.split(',')\<close>: the pieces between the separators; an empty string gives one
  empty piece.\<close>

fun split :: "char \<Rightarrow> string \<Rightarrow> string list" where
  "split c [] = [[]]"
| "split c (x # xs) =
     (if x = c then [] # split c xs
      else (case split c xs of [] \<Rightarrow> [[x]] | h # t \<Rightarrow> (x # h) # t))"

text \<open>An array element read by destructuring: \<^verbatim>\<open>undefined\<close> past the end.\<close>

definition element :: "'a list \<Rightarrow> nat \<Rightarrow> 'a option" where
  "element xs i = (if i < length xs then Some (xs ! i) else None)"

record coord =
  lat :: number
  lng :: number

text \<open>A polygon's ring of positions \<^verbatim>\<open>[longitude, latitude]\<close>.\<close>

type_synonym geometry = "(number \<times> number) list"

text \<open>
  Modelled from the spec: \<^verbatim>\<open>utils/rectangleBounds\<close> is not among the sources. It
  "constructs an axis-aligned rectangle geometry from the two corners": the closed ring
  through the four corners that the latitudes and longitudes of its two arguments define.
\<close>

definition rectangleBounds :: "coord \<Rightarrow> coord \<Rightarrow> geometry" where
  "rectangleBounds topRight bottomLeft =
     [(lng bottomLeft, lat bottomLeft), (lng bottomLeft, lat topRight),
      (lng topRight, lat topRight), (lng topRight, lat bottomLeft),
      (lng bottomLeft, lat bottomLeft)]"

text \<open>
  The store refuses a geometry with a position that is not a pair of finite numbers, a
  longitude between -180 and 180 and a latitude between -90 and 90.
\<close>

definition valid_position :: "number \<times> number \<Rightarrow> bool" where
  "valid_position p =
     (case p of
        (Some x, Some y) \<Rightarrow> - 180 \<le> x \<and> x \<le> 180 \<and> - 90 \<le> y \<and> y \<le> 90
      | _ \<Rightarrow> False)"

definition valid_geometry :: "geometry \<Rightarrow> bool" where
  "valid_geometry g = (g \<noteq> [] \<and> list_all valid_position g)"

text \<open>
  Modelled from the spec: the query "returns all records whose location falls within" the
  rectangle. For the ring of an axis-aligned rectangle this is read in the plane: the
  point's longitude and latitude lie between the least and the greatest of the ring's.
  How the store treats the sphere, and points on the boundary, is not modelled.
\<close>

definition least :: "rat list \<Rightarrow> rat" where
  "least xs = fold min xs (hd xs)"

definition greatest :: "rat list \<Rightarrow> rat" where
  "greatest xs = fold max xs (hd xs)"

definition geoWithin :: "geometry \<Rightarrow> point \<Rightarrow> bool" where
  "geoWithin g p =
     (let xs = map (\<lambda>q. the (fst q)) g; ys = map (\<lambda>q. the (snd q)) g
      in least xs \<le> fst (coordinates p) \<and> fst (coordinates p) \<le> greatest xs
         \<and> least ys \<le> snd (coordinates p) \<and> snd (coordinates p) \<le> greatest ys)"

text \<open>
  \<^verbatim>\<open>catGetByBoundingBox\<close>. The first piece of \<^verbatim>\<open>topRight\<close> becomes the longitude of the
  first corner and the second its latitude; the pieces of \<^verbatim>\<open>bottomLeft\<close> are taken the
  other way round. The documents are not populated. \<^verbatim>\<open>find\<close> gives an array, so the 404
  branch cannot be taken.
\<close>

definition catGetByBoundingBox :: "'b request \<Rightarrow> db \<Rightarrow> response \<times> db" where
  "catGetByBoundingBox rq d = catch500
     (if rq_errors rq \<noteq> [] then (Inl (CustomError (Text (messages (rq_errors rq))) 400), d)
      else
        case query_topRight rq of
          None \<Rightarrow> (Inl (LibraryError (PropertyOfUndefined ''split'')), d)
        | Some topRight \<Rightarrow>
            (case query_bottomLeft rq of
               None \<Rightarrow> (Inl (LibraryError (PropertyOfUndefined ''split'')), d)
             | Some bottomLeft \<Rightarrow>
                 let tr = split CHR '','' topRight;
                     trLat = element tr 0; trLng = element tr 1;
                     bl = split CHR '','' bottomLeft;
                     blLat = element bl 0; blLng = element bl 1;
                     bounds = rectangleBounds
                       \<lparr>lat = parseFloat trLng, lng = parseFloat trLat\<rparr>
                       \<lparr>lat = parseFloat blLat, lng = parseFloat blLng\<rparr>
                 in if \<not> valid_geometry bounds then (Inl (LibraryError InvalidGeometry), d)
                    else
                      (Inr (Json (JArr (map (\<lambda>c. cat_doc (JStr (owner c)) c)
                              (filter (\<lambda>c. geoWithin bounds (location c)) (cats d))))),
                       d)))"

text \<open>
  The rectangle that the claim speaks of: both corners read alike, as latitude then
  longitude, and a stored position \<^verbatim>\<open>[longitude, latitude]\<close> strictly between them or
  strictly beyond one of its sides.
\<close>

definition corner :: "string \<Rightarrow> coord" where
  "corner s = \<lparr>lat = parseFloat (element (split CHR '','' s) 0),
               lng = parseFloat (element (split CHR '','' s) 1)\<rparr>"

definition strictly_inside :: "coord \<Rightarrow> coord \<Rightarrow> point \<Rightarrow> bool" where
  "strictly_inside a b p =
     (case (lat a, lng a, lat b, lng b) of
        (Some la, Some lo, Some lb, Some ob) \<Rightarrow>
          min la lb < snd (coordinates p) \<and> snd (coordinates p) < max la lb
          \<and> min lo ob < fst (coordinates p) \<and> fst (coordinates p) < max lo ob
      | _ \<Rightarrow> False)"

definition strictly_outside :: "coord \<Rightarrow> coord \<Rightarrow> point \<Rightarrow> bool" where
  "strictly_outside a b p =
     (case (lat a, lng a, lat b, lng b) of
        (Some la, Some lo, Some lb, Some ob) \<Rightarrow>
          snd (coordinates p) < min la lb \<or> max la lb < snd (coordinates p)
          \<or> fst (coordinates p) < min lo ob \<or> max lo ob < fst (coordinates p)
      | _ \<Rightarrow> False)"

section \<open>Example data\<close>

definition alice :: user where
  "alice = \<lparr>user_id = ''u1'', user_name = ''alice'', email = ''a@x.com'',
             password = ''$2a$10$saltwonderland'', role = ''user''\<rparr>"

definition bob :: user where
  "bob = \<lparr>user_id = ''u2'', user_name = ''bob'', email = ''b@x.com'',
           password = ''$2a$10$salthunter2'', role = ''user''\<rparr>"

text \<open>The principals of the two users, as the authentication layer attaches them.\<close>

definition alice_p :: principal where
  "alice_p = \<lparr>p_id = ''u1'', p_user_name = ''alice'', p_email = ''a@x.com'', p_role = ''user''\<rparr>"

definition bob_p :: principal where
  "bob_p = \<lparr>p_id = ''u2'', p_user_name = ''bob'', p_email = ''b@x.com'', p_role = ''user''\<rparr>"

text \<open>Two cats of alice: tom at latitude 5, longitude 15 and felix at latitude 15,
  longitude 5.\<close>

definition tom :: cat where
  "tom = \<lparr>cat_id = ''c1'', cat_name = ''Tom'', weight = 4, owner = ''u1'',
           filename = ''tom.jpg'', birthdate = ''2020-01-01'',
           location = \<lparr>pt_type = ''Point'', coordinates = (15, 5)\<rparr>\<rparr>"

definition felix :: cat where
  "felix = \<lparr>cat_id = ''c2'', cat_name = ''Felix'', weight = 5, owner = ''u1'',
             filename = ''felix.jpg'', birthdate = ''2021-01-01'',
             location = \<lparr>pt_type = ''Point'', coordinates = (5, 15)\<rparr>\<rparr>"

definition store0 :: db where
  "store0 = \<lparr>users = [alice, bob], cats = [tom, felix]\<rparr>"

text \<open>A store in which only alice is registered.\<close>

definition store1 :: db where
  "store1 = \<lparr>users = [alice], cats = []\<rparr>"

text \<open>A request with nothing attached but its body.\<close>

definition request0 :: "'b \<Rightarrow> 'b request" where
  "request0 b =
     \<lparr>rq_errors = [], params_id = [], rq_body = b, rq_file = None, query_topRight = None,
      query_bottomLeft = None, locals_user = None, locals_coords = None\<rparr>"

definition no_cat_fields :: cat_body where
  "no_cat_fields =
     \<lparr>cb_id = None, cb_cat_name = None, cb_weight = None, cb_owner = None,
      cb_filename = None, cb_birthdate = None, cb_location = None\<rparr>"

text \<open>A registration that asks for the admin role.\<close>

definition carol_body :: user_body where
  "carol_body =
     \<lparr>ub_id = None, ub_user_name = Some ''carol'', ub_email = Some ''c@x.com'',
      ub_password = Some ''secret'', ub_role = Some ''admin'', ub_contexts = []\<rparr>"


text \<open>A new cat whose body names bob as its owner.\<close>

definition kitty_body :: cat_body where
  "kitty_body =
     \<lparr>cb_id = None, cb_cat_name = Some ''Kitty'', cb_weight = Some 3, cb_owner = Some ''u2'',
      cb_filename = Some ''chosen-by-client.jpg'', cb_birthdate = Some ''2022-02-02'',
      cb_location = None\<rparr>"

text \<open>Library results for one request; the hash here is a stand-in that glues the salt
  to the plain text.\<close>

definition example_env :: env where
  "example_env =
     \<lparr>new_id = ''n1'', genSalt = (\<lambda>rounds. ''$2a$10$salt''),
      bcrypt_hash = (\<lambda>plain salt. salt @ plain)\<rparr>"

text \<open>A new cat sent by alice, with an uploaded file and a resolved position.\<close>

definition kitty_request :: "cat_body request" where
  "kitty_request =
     (request0 kitty_body)
       \<lparr>rq_file := Some \<lparr>file_filename = ''upload-1.jpg''\<rparr>, locals_user := Some alice_p,
        locals_coords := Some \<lparr>pt_type = ''Point'', coordinates = (25, 60)\<rparr>\<rparr>"

definition rename_body :: cat_body where
  "rename_body = no_cat_fields\<lparr>cb_cat_name := Some ''Renamed''\<rparr>"

text \<open>One finding of the validation layer.\<close>

definition invalid_id :: "(string \<times> string) list" where
  "invalid_id = [(''Invalid value'', ''id'')]"

text \<open>A query for the rectangle between latitude 0, longitude 0 and latitude 10,
  longitude 20.\<close>

definition box_request :: "unit request" where
  "box_request =
     (request0 ())\<lparr>query_topRight := Some ''10,20'', query_bottomLeft := Some ''0,0''\<rparr>"

section \<open>Facts about the collections\<close>

lemma select_minus_absent: "k \<in> set paths \<Longrightarrow> k \<notin> fst ` set (select_minus paths d)"
  by (auto simp: select_minus_def)



lemma cat_create_fields:
  "cat_create e b cs = Inr c \<Longrightarrow>
     Some (owner c) = cb_owner b \<and> Some (filename c) = cb_filename b
     \<and> Some (location c) = cb_location b"
  by (auto simp: cat_create_def Let_def split: if_splits option.splits)

lemma messages_invalid_id: "messages invalid_id = ''Invalid value: id''"
  by (simp add: messages_def invalid_id_def)

lemma find_tom: "cat_findById ''c1'' (cats store0) = Some tom"
  by (simp add: cat_findById_def store0_def tom_def)

lemma find_alice: "user_findById ''u1'' (users store0) = Some alice"
  by (simp add: user_findById_def store0_def alice_def)

section \<open>Authorization of cat updates and deletes\<close>

text \<open>The owner-scoped handlers give the same result whoever the principal is.\<close>

lemma catDelete_ignores_principal: "catDelete (rq\<lparr>locals_user := p\<rparr>) d = catDelete rq d"
  by (simp add: catDelete_def)

lemma catPut_ignores_principal: "catPut (rq\<lparr>locals_user := p\<rparr>) d = catPut rq d"
  by (simp add: catPut_def)

text \<open>
  C1. Owner-scoped update and delete are claimed to fail with Forbidden, and to leave the
  record alone, when the principal is not the record's owner. The handlers do not compare
  the two: bob, who does not own tom, deletes tom with \<^verbatim>\<open>catDelete\<close> and renames tom with
  \<^verbatim>\<open>catPut\<close>, and both calls answer with the success envelope.
\<close>

theorem owner_not_checked:
  "p_id bob_p \<noteq> owner tom
   \<and> catDelete ((request0 ())\<lparr>params_id := ''c1'', locals_user := Some bob_p\<rparr>) store0 =
       (Json (MessageResponse ''Cat deleted'' (cat_doc (JObj (user_doc alice)) tom)),
        store0\<lparr>cats := [felix]\<rparr>)
   \<and> catPut ((request0 rename_body)\<lparr>params_id := ''c1'', locals_user := Some bob_p\<rparr>) store0 =
       (Json (MessageResponse ''Cat updated''
          (cat_doc (JObj [(''_id'', JStr ''u1''), (''user_name'', JStr ''alice''),
                          (''email'', JStr ''a@x.com'')])
             (tom\<lparr>cat_name := ''Renamed''\<rparr>))),
        store0\<lparr>cats := [tom\<lparr>cat_name := ''Renamed''\<rparr>, felix]\<rparr>)"
proof -
  have "p_id bob_p \<noteq> owner tom"
    by (simp add: bob_p_def tom_def)
  moreover have
    "catDelete ((request0 ())\<lparr>params_id := ''c1'', locals_user := Some bob_p\<rparr>) store0 =
       (Json (MessageResponse ''Cat deleted'' (cat_doc (JObj (user_doc alice)) tom)),
        store0\<lparr>cats := [felix]\<rparr>)"
    by (simp add: catDelete_def catch500_def request0_def cat_findByIdAndDelete_def find_tom
          populate_def) (simp add: store0_def tom_def user_findById_def alice_def)
  moreover have
    "catPut ((request0 rename_body)\<lparr>params_id := ''c1'', locals_user := Some bob_p\<rparr>) store0 =
       (Json (MessageResponse ''Cat updated''
          (cat_doc (JObj [(''_id'', JStr ''u1''), (''user_name'', JStr ''alice''),
                          (''email'', JStr ''a@x.com'')])
             (tom\<lparr>cat_name := ''Renamed''\<rparr>))),
        store0\<lparr>cats := [tom\<lparr>cat_name := ''Renamed''\<rparr>, felix]\<rparr>)"
    by (simp add: catPut_def catch500_def request0_def cat_findByIdAndUpdate_def find_tom
          rename_body_def no_cat_fields_def cat_apply_def populate_def)
       (simp add: store0_def tom_def user_findById_def alice_def select_only_def user_doc_def)
  ultimately show ?thesis by blast
qed

text \<open>A validated request of a principal who is not an admin leaves the admin-scoped
  handlers without an answer and without a change to the store.\<close>

lemma non_admin_silent:
  "rq_errors rq = [] \<Longrightarrow> locals_user rq = Some p \<Longrightarrow> p_role p \<noteq> ''admin'' \<Longrightarrow>
     catPutAdmin rq d = (NoResponse, d) \<and> catDeleteAdmin rq d = (NoResponse, d)"
  by (simp add: catPutAdmin_def catDeleteAdmin_def catch500_def)

text \<open>
  C2. Admin-scoped update and delete are claimed to fail with an explicit Forbidden error
  when the principal's role is not admin, the record staying as it is. The record does
  stay, but no error is raised: for alice, whose role is user, \<^verbatim>\<open>catDeleteAdmin\<close> and
  \<^verbatim>\<open>catPutAdmin\<close> return without calling \<^verbatim>\<open>res.json\<close> or \<^verbatim>\<open>next\<close>.
\<close>

theorem non_admin_unanswered:
  "p_role alice_p \<noteq> ''admin''
   \<and> catDeleteAdmin ((request0 no_cat_fields)\<lparr>params_id := ''c1'', locals_user := Some alice_p\<rparr>)
        store0 = (NoResponse, store0)
   \<and> catPutAdmin ((request0 rename_body)\<lparr>params_id := ''c1'', locals_user := Some alice_p\<rparr>)
        store0 = (NoResponse, store0)"
  by (simp add: non_admin_silent request0_def alice_p_def)

section \<open>Validation errors\<close>

text \<open>
  C3. Every handler is claimed to fail with a 400-class error carrying the joined
  \<^verbatim>\<open>msg: field\<close> pairs, before any database operation, when the validation layer reported
  errors. With one reported error, \<^verbatim>\<open>userGet\<close> still reads and returns the user,
  \<^verbatim>\<open>userPost\<close> still stores the new user, and \<^verbatim>\<open>catPut\<close> fails with the joined message
  but with status 500.
\<close>

theorem validation_errors_not_400:
  "userGet ((request0 ())\<lparr>rq_errors := invalid_id, params_id := ''u1''\<rparr>) store0 =
     (Json (JObj [(''_id'', JStr ''u1''), (''user_name'', JStr ''alice''),
                  (''email'', JStr ''a@x.com''), (''password'', JStr ''$2a$10$saltwonderland'')]),
      store0)
   \<and> snd (userPost example_env ((request0 carol_body)\<lparr>rq_errors := invalid_id\<rparr>) store1) =
       store1\<lparr>users := [alice, \<lparr>user_id = ''n1'', user_name = ''carol'', email = ''c@x.com'',
                                  password = ''$2a$10$saltsecret'', role = ''user''\<rparr>]\<rparr>
   \<and> catPut ((request0 rename_body)\<lparr>rq_errors := invalid_id, params_id := ''c1''\<rparr>) store0 =
       (Next (CustomError (Text ''Invalid value: id'') 500), store0)"
proof -
  have "userGet ((request0 ())\<lparr>rq_errors := invalid_id, params_id := ''u1''\<rparr>) store0 =
     (Json (JObj [(''_id'', JStr ''u1''), (''user_name'', JStr ''alice''),
                  (''email'', JStr ''a@x.com''), (''password'', JStr ''$2a$10$saltwonderland'')]),
      store0)"
    by (simp add: userGet_def catch500_def request0_def find_alice Let_def)
       (simp add: select_minus_def user_doc_def alice_def)
  moreover have
    "snd (userPost example_env ((request0 carol_body)\<lparr>rq_errors := invalid_id\<rparr>) store1) =
       store1\<lparr>users := [alice, \<lparr>user_id = ''n1'', user_name = ''carol'', email = ''c@x.com'',
                                  password = ''$2a$10$saltsecret'', role = ''user''\<rparr>]\<rparr>"
    by (simp add: userPost_def catch500_def request0_def carol_body_def example_env_def Let_def
          user_create_def required_string_def user_findById_def store1_def alice_def)
  moreover have
    "catPut ((request0 rename_body)\<lparr>rq_errors := invalid_id, params_id := ''c1''\<rparr>) store0 =
       (Next (CustomError (Text ''Invalid value: id'') 500), store0)"
    by (simp add: catPut_def catch500_def request0_def messages_invalid_id)
       (simp add: invalid_id_def)
  ultimately show ?thesis by blast
qed

section \<open>User responses\<close>

text \<open>The path \<^verbatim>\<open>role\<close> is absent from what \<^verbatim>\<open>userGet\<close> returns.\<close>

lemma userGet_without_role: "userGet rq d = (Json (JObj fs), d') \<Longrightarrow> ''role'' \<notin> fst ` set fs"
  by (auto simp: userGet_def catch500_def Let_def select_minus_def split: option.splits)

text \<open>
  C4. The responses of \<^verbatim>\<open>userGet\<close> and \<^verbatim>\<open>userListGet\<close> are claimed to carry neither
  \<^verbatim>\<open>password\<close> nor \<^verbatim>\<open>role\<close>. Both handlers select \<^verbatim>\<open>-role\<close> only: for the stored alice
  each of them returns her password hash.
\<close>

theorem password_in_user_responses:
  "userGet ((request0 ())\<lparr>params_id := ''u1''\<rparr>) store1 =
     (Json (JObj [(''_id'', JStr ''u1''), (''user_name'', JStr ''alice''),
                  (''email'', JStr ''a@x.com''), (''password'', JStr ''$2a$10$saltwonderland'')]),
      store1)
   \<and> userListGet (request0 ()) store1 =
     (Json (JArr [JObj [(''_id'', JStr ''u1''), (''user_name'', JStr ''alice''),
                        (''email'', JStr ''a@x.com''),
                        (''password'', JStr ''$2a$10$saltwonderland'')]]),
      store1)"
  by (simp add: userGet_def userListGet_def catch500_def request0_def store1_def user_findById_def
        alice_def select_minus_def user_doc_def)

section \<open>The bounding-box query on an example\<close>

lemma finite_number_small: "\<bar>v\<bar> \<le> 1000 \<Longrightarrow> finite_number v = Some v"
proof -
  assume small: "\<bar>v\<bar> \<le> 1000"
  have "(2::rat) ^ 970 * 2 \<le> 2 ^ 970 * 2 ^ 54"
    by (intro mult_left_mono) simp_all
  then have "(2::rat) ^ 970 + 2 ^ 970 \<le> 2 ^ 1024"
    by (simp add: power_add [symmetric])
  moreover have "(1000::rat) < 2 ^ 10"
    by simp
  moreover have "(2::rat) ^ 10 \<le> 2 ^ 970"
    by (intro power_increasing) simp_all
  ultimately have "(1000::rat) < 2 ^ 1024 - 2 ^ 970"
    by linarith
  with small show ?thesis
    by (simp add: finite_number_def)
qed

lemmas parse_defs = parseFloat_def take_sign_def exponent_def is_digit_def is_space_def
  digits_value_def finite_number_small

lemma parseFloat_10: "parseFloat (Some ''10'') = Some 10"
  by (simp add: parse_defs)

lemma parseFloat_20: "parseFloat (Some ''20'') = Some 20"
  by (simp add: parse_defs)

lemma parseFloat_0: "parseFloat (Some ''0'') = Some 0"
  by (simp add: parse_defs)

lemma split_10_20: "split CHR '','' ''10,20'' = [''10'', ''20'']"
  by simp

lemma split_0_0: "split CHR '','' ''0,0'' = [''0'', ''0'']"
  by simp

lemma corner_10_20: "corner ''10,20'' = \<lparr>lat = Some 10, lng = Some 20\<rparr>"
  by (simp add: corner_def split_10_20 element_def parseFloat_10 parseFloat_20 del: split.simps)

lemma corner_0_0: "corner ''0,0'' = \<lparr>lat = Some 0, lng = Some 0\<rparr>"
  by (simp add: corner_def split_0_0 element_def parseFloat_0 del: split.simps)

text \<open>The ring that the handler builds for the example: longitudes 0 to 10, latitudes
  0 to 20.\<close>

lemma box_bounds:
  "rectangleBounds \<lparr>lat = Some 20, lng = Some 10\<rparr> \<lparr>lat = Some 0, lng = Some 0\<rparr> =
     [(Some 0, Some 0), (Some 0, Some 20), (Some 10, Some 20), (Some 10, Some 0), (Some 0, Some 0)]"
  by (simp add: rectangleBounds_def)

lemma box_valid:
  "valid_geometry
     [(Some 0, Some 0), (Some 0, Some 20), (Some 10, Some 20), (Some 10, Some 0), (Some 0, Some 0)]"
  by (simp add: valid_geometry_def valid_position_def)

lemma box_without_tom:
  "\<not> geoWithin
     [(Some 0, Some 0), (Some 0, Some 20), (Some 10, Some 20), (Some 10, Some 0), (Some 0, Some 0)]
     (location tom)"
  by (simp add: geoWithin_def least_def greatest_def tom_def)

lemma box_with_felix:
  "geoWithin
     [(Some 0, Some 0), (Some 0, Some 20), (Some 10, Some 20), (Some 10, Some 0), (Some 0, Some 0)]
     (location felix)"
  by (simp add: geoWithin_def least_def greatest_def felix_def)

text \<open>
  C5. The bounding-box query is claimed to return every cat strictly inside the rectangle
  of the two corners and no cat strictly outside it. For the corners \<^verbatim>\<open>10,20\<close> and
  \<^verbatim>\<open>0,0\<close>, tom (latitude 5, longitude 15) is strictly inside and felix (latitude 15,
  longitude 5) strictly outside; the handler, which takes the first corner's pieces as
  longitude then latitude, returns felix and not tom.
\<close>

theorem bounding_box_corner_swapped:
  "strictly_inside (corner ''10,20'') (corner ''0,0'') (location tom)
   \<and> strictly_outside (corner ''10,20'') (corner ''0,0'') (location felix)
   \<and> catGetByBoundingBox box_request store0 = (Json (JArr [cat_doc (JStr ''u1'') felix]), store0)"
proof -
  have "strictly_inside (corner ''10,20'') (corner ''0,0'') (location tom)"
    by (simp add: strictly_inside_def corner_10_20 corner_0_0 tom_def)
  moreover have "strictly_outside (corner ''10,20'') (corner ''0,0'') (location felix)"
    by (simp add: strictly_outside_def corner_10_20 corner_0_0 felix_def)
  moreover have "catGetByBoundingBox box_request store0 =
      (Json (JArr [cat_doc (JStr ''u1'') felix]), store0)"
    by (simp add: catGetByBoundingBox_def box_request_def request0_def catch500_def
          split_10_20 split_0_0 element_def parseFloat_10 parseFloat_20 parseFloat_0
          box_bounds box_valid store0_def box_without_tom box_with_felix del: split.simps)
       (simp add: felix_def)
  ultimately show ?thesis by blast
qed

section \<open>Creating users and cats\<close>



text \<open>
  C8. A cat persisted by \<^verbatim>\<open>catPost\<close> has the authenticated principal's id as its owner,
  the stored name of the uploaded file as its filename and the resolved coordinate as its
  location, whatever the body supplied for them. A call that does not succeed hands an
  error on and persists nothing.
\<close>

theorem catPost_owner_file_location:
  "catPost e rq d = (out, d') \<Longrightarrow>
     ((\<exists>err. out = Next err) \<and> d' = d)
     \<or> (\<exists>c p f. locals_user rq = Some p \<and> rq_file rq = Some f
            \<and> d' = d\<lparr>cats := cats d @ [c]\<rparr>
            \<and> owner c = p_id p \<and> filename c = file_filename f
            \<and> locals_coords rq = Some (location c)
            \<and> out = Json (MessageResponse ''Cat created'' (populate None (users d) c)))"
  by (auto simp: catPost_def catch500_def split: option.splits sum.splits if_splits
           dest!: cat_create_fields)

text \<open>A body that names bob as owner and a filename of its own is stored with alice, the
  principal, as owner and with the uploaded file's name.\<close>

theorem catPost_owner_file_location_witness:
  "cb_owner (rq_body kitty_request) = Some ''u2''
   \<and> (\<exists>c. snd (catPost example_env kitty_request store0) = store0\<lparr>cats := [tom, felix, c]\<rparr>
          \<and> owner c = ''u1'' \<and> filename c = ''upload-1.jpg''
          \<and> location c = \<lparr>pt_type = ''Point'', coordinates = (25, 60)\<rparr>)"
proof -
  let ?r = "catPost example_env kitty_request store0"
  have answered: "\<not> (\<exists>err. fst ?r = Next err)"
    by (simp add: catPost_def catch500_def kitty_request_def request0_def kitty_body_def
          example_env_def Let_def cat_create_def cat_findById_def store0_def tom_def felix_def alice_p_def)
  from catPost_owner_file_location [of example_env kitty_request store0 "fst ?r" "snd ?r"] answered
  obtain c p f where c: "locals_user kitty_request = Some p" "rq_file kitty_request = Some f"
      "snd ?r = store0\<lparr>cats := cats store0 @ [c]\<rparr>" "owner c = p_id p"
      "filename c = file_filename f" "locals_coords kitty_request = Some (location c)"
    by auto
  from c(1,2,6) have "p = alice_p" "f = \<lparr>file_filename = ''upload-1.jpg''\<rparr>"
      "location c = \<lparr>pt_type = ''Point'', coordinates = (25, 60)\<rparr>"
    by (simp_all add: kitty_request_def)
  with c(3,4,5) have "snd ?r = store0\<lparr>cats := [tom, felix, c]\<rparr> \<and> owner c = ''u1''
      \<and> filename c = ''upload-1.jpg'' \<and> location c = \<lparr>pt_type = ''Point'', coordinates = (25, 60)\<rparr>"
    by (simp add: store0_def alice_p_def)
  moreover have "cb_owner (rq_body kitty_request) = Some ''u2''"
    by (simp add: kitty_request_def request0_def kitty_body_def)
  ultimately show ?thesis by blast
qed

section \<open>Token check and deleting the current user\<close>

text \<open>
  C9. \<^verbatim>\<open>checkToken\<close> hands on an error exactly when no principal is attached, and that
  error has the message \<^verbatim>\<open>token not valid\<close> and status 403; with a principal attached it
  returns the principal's identifier (under the key \<^verbatim>\<open>_id\<close>), user name and email. The
  store is neither changed nor consulted: the answer is the same for any two stores.
\<close>

theorem checkToken_principal:
  "((\<exists>err. fst (checkToken rq d) = Next err) \<longleftrightarrow> locals_user rq = None)
   \<and> (locals_user rq = None \<longrightarrow>
        fst (checkToken rq d) = Next (CustomError (Text ''token not valid'') 403))
   \<and> (\<forall>p. locals_user rq = Some p \<longrightarrow>
        fst (checkToken rq d) =
          Json (JObj [(''_id'', JStr (p_id p)), (''user_name'', JStr (p_user_name p)),
                      (''email'', JStr (p_email p))]))
   \<and> snd (checkToken rq d) = d
   \<and> fst (checkToken rq d) = fst (checkToken rq d')"
  by (simp add: checkToken_def split: option.splits)

theorem checkToken_principal_witness:
  "fst (checkToken ((request0 ())\<lparr>locals_user := Some alice_p\<rparr>) store0) =
     Json (JObj [(''_id'', JStr ''u1''), (''user_name'', JStr ''alice''), (''email'', JStr ''a@x.com'')])
   \<and> fst (checkToken (request0 ()) store0) = Next (CustomError (Text ''token not valid'') 403)"
  using checkToken_principal [of "(request0 ())\<lparr>locals_user := Some alice_p\<rparr>" store0 store0]
        checkToken_principal [of "request0 ()" store0 store0]
  by (simp add: request0_def alice_p_def)






end
